theory Spec2Isabelle
  imports Main
begin

section \<open>The ECR push-image task: \<open>Tasks/ECRPushImage/helpers/PushImageTaskOperations.ts\<close>\<close>

subsection \<open>JavaScript values and thrown errors\<close>

text \<open>
  The strings the task handles come from task inputs and from service responses, where a
  value declared \<open>string\<close> may be \<open>undefined\<close> or \<open>null\<close> at run time.
  \<open>truthy\<close> is the test of \<open>if (v)\<close> and \<open>to_str\<close> is what a template literal
  or \<open>+\<close> renders.
\<close>

datatype js_value = Undefined | Null | Str string

fun truthy :: "js_value \<Rightarrow> bool" where
  "truthy (Str s) = (s \<noteq> [])"
| "truthy Undefined = False"
| "truthy Null = False"

fun to_str :: "js_value \<Rightarrow> string" where
  "to_str (Str s) = s"
| "to_str Undefined = ''undefined''"
| "to_str Null = ''null''"

text \<open>
  What can be thrown: \<open>Error m\<close> is \<open>new Error(m)\<close> of the task's own code,
  \<open>TypeError m\<close> is the runtime's error on a property read of \<open>undefined\<close>, and
  \<open>Rejected c s\<close> is an error raised by an external call, of which the task reads the
  \<open>code\<close> property \<open>c\<close> and the string rendering \<open>s\<close>.
\<close>

datatype thrown = Error string | TypeError string | Rejected js_value string

fun err_code :: "thrown \<Rightarrow> js_value" where
  "err_code (Rejected c s) = c"
| "err_code (Error m) = Undefined"
| "err_code (TypeError m) = Undefined"

fun err_string :: "thrown \<Rightarrow> string" where
  "err_string (Rejected c s) = s"
| "err_string (Error m) = ''Error: '' @ m"
| "err_string (TypeError m) = ''TypeError: '' @ m"

subsection \<open>External actions and promises\<close>

text \<open>
  Every action on the outside world is an event of the run's trace, in program order:
  console output (the \<open>tl.loc\<close> key and its arguments), the construction of the SDK
  client, \<open>tl.which\<close>, the three registry API requests, the execution of a tool with the
  arguments handed to \<open>arg\<close>, and \<open>tl.setVariable\<close>.
\<close>

datatype event =
    ConsoleLog string "js_value list"
  | CreateSdkClient string
  | Which string bool
  | GetAuthorizationToken
  | DescribeRepositories "js_value list"
  | CreateRepository js_value
  | Exec string "js_value list"
  | SetVariable js_value string

text \<open>
  An awaited asynchronous computation is its trace together with either the thrown value
  (\<open>Inl\<close>) or the result (\<open>Inr\<close>). \<open>await m k\<close> runs \<open>k\<close> only once \<open>m\<close> has
  completed without throwing.
\<close>

type_synonym 'a promise = "event list \<times> (thrown + 'a)"

definition resolve :: "'a \<Rightarrow> 'a promise" where
  "resolve x = ([], Inr x)"

definition reject :: "thrown \<Rightarrow> 'a promise" where
  "reject e = ([], Inl e)"

definition settle :: "thrown + 'a \<Rightarrow> 'a promise" where
  "settle r = ([], r)"

definition request :: "event \<Rightarrow> thrown + 'a \<Rightarrow> 'a promise" where
  "request ev r = ([ev], r)"

definition await :: "'a promise \<Rightarrow> ('a \<Rightarrow> 'b promise) \<Rightarrow> 'b promise" where
  "await m k =
     (case m of
        (tr, Inl e) \<Rightarrow> (tr, Inl e)
      | (tr, Inr x) \<Rightarrow> (case k x of (tr', r) \<Rightarrow> (tr @ tr', r)))"

definition try_catch :: "'a promise \<Rightarrow> (thrown \<Rightarrow> 'a promise) \<Rightarrow> 'a promise" where
  "try_catch m h =
     (case m of
        (tr, Inl e) \<Rightarrow> (case h e of (tr', r) \<Rightarrow> (tr @ tr', r))
      | (tr, Inr x) \<Rightarrow> (tr, Inr x))"

definition console_log :: "string \<Rightarrow> js_value list \<Rightarrow> unit promise" where
  "console_log key args = ([ConsoleLog key args], Inr ())"

subsection \<open>Task parameters, the registry client and the environment\<close>

record task_parameters =
  imageSource :: js_value
  sourceImageName :: js_value
  sourceImageTag :: js_value
  sourceImageId :: js_value
  repositoryName :: js_value
  pushTag :: js_value
  autoCreateRepository :: bool
  outputVariable :: js_value

record authorization_data =
  authorizationToken :: js_value
  proxyEndpoint :: js_value

record get_authorization_token_response =
  authorizationData :: "authorization_data list option"

text \<open>
  The registry client is given by what each of its requests answers; the requests the task
  makes are \<open>getAuthorizationToken()\<close>, \<open>describeRepositories({repositoryNames})\<close>
  and \<open>createRepository({repositoryName})\<close>.
\<close>

record ecr =
  getAuthorizationToken :: "thrown + get_authorization_token_response"
  describeRepositories :: "js_value list \<Rightarrow> thrown + unit"
  createRepository :: "js_value \<Rightarrow> thrown + unit"

record url =
  host :: js_value

record tool_runner =
  toolPath :: string
  args :: "js_value list"

text \<open>
  The code outside this file is a parameter: the constant
  \<open>TaskParameters.imageNameSource\<close>, \<open>SdkUtils.createAndConfigureSdkClient\<close>,
  \<open>tl.which\<close>, \<open>parse\<close> of the \<open>url\<close> module, \<open>base64.decode\<close> and the
  \<open>exec\<close> of a tool runner.
\<close>

record environment =
  imageNameSource :: string
  createAndConfigureSdkClient :: "thrown + ecr"
  tl_which :: "string \<Rightarrow> bool \<Rightarrow> thrown + string"
  url_parse :: "js_value \<Rightarrow> thrown + url"
  base64_decode :: "js_value \<Rightarrow> thrown + string"
  tool_exec :: "string \<Rightarrow> js_value list \<Rightarrow> thrown + int"

subsection \<open>Strings and arrays\<close>

text \<open>\<open>s.split(c)\<close> for a separator of one character, and \<open>xs[i]\<close>.\<close>

fun js_split :: "char \<Rightarrow> string \<Rightarrow> string list" where
  "js_split c [] = [[]]"
| "js_split c (x # xs) =
     (if x = c then [] # js_split c xs
      else (x # hd (js_split c xs)) # tl (js_split c xs))"

definition js_index :: "string list \<Rightarrow> nat \<Rightarrow> js_value" where
  "js_index xs i = (if i < length xs then Str (xs ! i) else Undefined)"

subsection \<open>The operations\<close>

definition createServiceClients :: "environment \<Rightarrow> ecr promise" where
  "createServiceClients env =
     request (CreateSdkClient ''2015-09-21'') (createAndConfigureSdkClient env)"

definition constructTaggedImageName :: "js_value \<Rightarrow> js_value \<Rightarrow> js_value" where
  "constructTaggedImageName imageName tag =
     (if truthy tag then Str (to_str imageName @ '':'' @ to_str tag) else imageName)"

definition createRepositoryIfNeeded :: "ecr \<Rightarrow> js_value \<Rightarrow> unit promise" where
  "createRepositoryIfNeeded ecrClient repository =
     await (console_log ''TestingForRepository'' [repository]) (\<lambda>_.
     try_catch
       (request (DescribeRepositories [repository])
          (describeRepositories ecrClient [repository]))
       (\<lambda>err.
          if err_code err = Str ''RepositoryNotFoundException'' then
            await (console_log ''CreatingRepository'' []) (\<lambda>_.
            request (CreateRepository repository) (createRepository ecrClient repository))
          else
            reject (Error (''Error testing for repository existence: '' @ err_string err))))"

definition tl_tool :: "string \<Rightarrow> tool_runner" where
  "tl_tool p = \<lparr>toolPath = p, args = []\<rparr>"

definition tool_arg :: "tool_runner \<Rightarrow> js_value \<Rightarrow> tool_runner" where
  "tool_arg t v = t\<lparr>args := args t @ [v]\<rparr>"

definition runDockerCommand ::
  "environment \<Rightarrow> string \<Rightarrow> string \<Rightarrow> js_value list \<Rightarrow> unit promise" where
  "runDockerCommand env dockerPath command as =
     await (console_log ''InvokingDockerCommand'' [Str dockerPath, Str command]) (\<lambda>_.
     let docker = fold (\<lambda>a t. tool_arg t a) as (tool_arg (tl_tool dockerPath) (Str command))
     in await (request (Exec (toolPath docker) (args docker))
                 (tool_exec env (toolPath docker) (args docker)))
          (\<lambda>_. resolve ()))"

definition loginToRegistry ::
  "environment \<Rightarrow> string \<Rightarrow> js_value \<Rightarrow> js_value \<Rightarrow> unit promise" where
  "loginToRegistry env dockerPath encodedAuthToken endpoint =
     await (settle (base64_decode env encodedAuthToken)) (\<lambda>decoded.
     let tokens = js_split CHR '':'' decoded
     in runDockerCommand env dockerPath ''login''
          [Str ''-u'', js_index tokens 0, Str ''-p'', js_index tokens 1, endpoint])"

definition tagImage ::
  "environment \<Rightarrow> string \<Rightarrow> js_value \<Rightarrow> string \<Rightarrow> unit promise" where
  "tagImage env dockerPath sourceImageRef imageTag =
     await (console_log ''AddingTag'' [Str imageTag, sourceImageRef]) (\<lambda>_.
     runDockerCommand env dockerPath ''tag'' [sourceImageRef, Str imageTag])"

definition pushImageToECR :: "environment \<Rightarrow> string \<Rightarrow> string \<Rightarrow> unit promise" where
  "pushImageToECR env dockerPath imageRef =
     await (console_log ''PushingImage'' [Str imageRef]) (\<lambda>_.
     runDockerCommand env dockerPath ''push'' [Str imageRef])"

text \<open>
  \<open>response.authorizationData[0]\<close> inside the \<open>try\<close>: on an absent array the read
  throws and the \<open>catch\<close> rewraps it; on an empty array it is \<open>undefined\<close>
  (\<open>None\<close>), which is returned.
\<close>

definition getEcrAuthorizationData :: "ecr \<Rightarrow> authorization_data option promise" where
  "getEcrAuthorizationData ecrClient =
     try_catch
       (await (console_log ''RequestingAuthToken'' []) (\<lambda>_.
        await (request GetAuthorizationToken (getAuthorizationToken ecrClient)) (\<lambda>response.
        case authorizationData response of
          None \<Rightarrow> reject (TypeError ''Cannot read property 0 of undefined'')
        | Some [] \<Rightarrow> resolve None
        | Some (a # _) \<Rightarrow> resolve (Some a))))
       (\<lambda>err. reject (Error
          (''Failed to obtain authorization token to log in to ECR, error: '' @ err_string err)))"

text \<open>
  The loop of \<open>locateDockerExecutable\<close> over the candidate names, with the variable
  \<open>dockerPath\<close> as accumulator: a throwing \<open>tl.which\<close> leaves it as it was, a
  truthy result leaves the loop.
\<close>

fun locate_loop :: "environment \<Rightarrow> js_value \<Rightarrow> string list \<Rightarrow> event list \<times> js_value" where
  "locate_loop env dockerPath [] = ([], dockerPath)"
| "locate_loop env dockerPath (e # es) =
     (case tl_which env e True of
        Inl err \<Rightarrow>
          (case locate_loop env dockerPath es of (tr, r) \<Rightarrow> (Which e True # tr, r))
      | Inr found \<Rightarrow>
          if truthy (Str found) then ([Which e True], Str found)
          else (case locate_loop env (Str found) es of (tr, r) \<Rightarrow> (Which e True # tr, r)))"

definition locateDockerExecutable :: "environment \<Rightarrow> string promise" where
  "locateDockerExecutable env =
     (case locate_loop env Undefined [''docker'', ''docker.exe''] of
        (tr, dockerPath) \<Rightarrow>
          if \<not> truthy dockerPath
          then (tr, Inl (Error ''Cannot find docker command line executable''))
          else (tr, Inr (to_str dockerPath)))"

definition execute :: "environment \<Rightarrow> task_parameters \<Rightarrow> unit promise" where
  "execute env p =
     await (createServiceClients env) (\<lambda>ecrClient.
     await (locateDockerExecutable env) (\<lambda>dockerPath.
     await
       (if imageSource p = Str (imageNameSource env) then
          let ref = constructTaggedImageName (sourceImageName p) (sourceImageTag p)
          in await (console_log ''PushImageWithName'' [ref]) (\<lambda>_. resolve ref)
        else
          await (console_log ''PushImageWithId'' [sourceImageId p])
            (\<lambda>_. resolve (sourceImageId p)))
       (\<lambda>sourceImageRef.
     await (getEcrAuthorizationData ecrClient) (\<lambda>authData.
     case authData of
       None \<Rightarrow> reject (TypeError ''Cannot read property proxyEndpoint of undefined'')
     | Some auth \<Rightarrow>
     await (settle (url_parse env (proxyEndpoint auth))) (\<lambda>parsed.
     let endpoint = host parsed in
     await
       (if autoCreateRepository p
        then createRepositoryIfNeeded ecrClient (repositoryName p)
        else resolve ())
       (\<lambda>_.
     let targetImageName = constructTaggedImageName (repositoryName p) (pushTag p);
         targetImageRef = to_str endpoint @ ''/'' @ to_str targetImageName
     in
     await (tagImage env dockerPath sourceImageRef targetImageRef) (\<lambda>_.
     await (loginToRegistry env dockerPath (authorizationToken auth) (proxyEndpoint auth)) (\<lambda>_.
     await (pushImageToECR env dockerPath targetImageRef) (\<lambda>_.
     await
       (if truthy (outputVariable p) then
          await (console_log ''SettingOutputVariable''
                   [outputVariable p, Str targetImageRef]) (\<lambda>_.
          request (SetVariable (outputVariable p) targetImageRef) (Inr ()))
        else resolve ())
       (\<lambda>_.
     console_log ''TaskCompleted'' []))))))))))"

subsection \<open>Classifying the events of a trace\<close>

text \<open>
  The actions on the registry and on the container CLI, the registry API requests among
  them, the requests about the repository, and the settings of a pipeline variable.
\<close>

fun is_action :: "event \<Rightarrow> bool" where
  "is_action GetAuthorizationToken = True"
| "is_action (DescribeRepositories rs) = True"
| "is_action (CreateRepository r) = True"
| "is_action (Exec path as) = True"
| "is_action ev = False"

fun is_registry_request :: "event \<Rightarrow> bool" where
  "is_registry_request GetAuthorizationToken = True"
| "is_registry_request (DescribeRepositories rs) = True"
| "is_registry_request (CreateRepository r) = True"
| "is_registry_request ev = False"

fun is_repository_request :: "event \<Rightarrow> bool" where
  "is_repository_request (DescribeRepositories rs) = True"
| "is_repository_request (CreateRepository r) = True"
| "is_repository_request ev = False"

fun is_exec :: "event \<Rightarrow> bool" where
  "is_exec (Exec path as) = True"
| "is_exec ev = False"

fun is_set_variable :: "event \<Rightarrow> bool" where
  "is_set_variable (SetVariable n v) = True"
| "is_set_variable ev = False"

subsection \<open>A concrete registry, environment and task\<close>

definition registry_ok :: ecr where
  "registry_ok =
     \<lparr>getAuthorizationToken = Inr \<lparr>authorizationData = Some
        [\<lparr>authorizationToken = Str ''QVdTOnB3'', proxyEndpoint = Str ''https://reg.test''\<rparr>]\<rparr>,
      describeRepositories = (\<lambda>rs.
        Inl (Rejected (Str ''RepositoryNotFoundException'') ''RepositoryNotFoundException'')),
      createRepository = (\<lambda>r. Inr ())\<rparr>"

definition env_ok :: environment where
  "env_ok =
     \<lparr>imageNameSource = ''imagename'',
      createAndConfigureSdkClient = Inr registry_ok,
      tl_which = (\<lambda>e check.
        if e = ''docker'' then Inr ''/bin/docker'' else Inl (Rejected Undefined ''not found'')),
      url_parse = (\<lambda>v.
        case v of Str s \<Rightarrow> Inr \<lparr>host = Str ''reg.test''\<rparr>
        | _ \<Rightarrow> Inl (TypeError ''url must be a string'')),
      base64_decode = (\<lambda>v.
        if v = Str ''QVdTOnB3'' then Inr ''AWS:pw''
        else if v = Str ''QVdTOnBhOnNz'' then Inr ''AWS:pa:ss''
        else if v = Str ''QVdT'' then Inr ''AWS''
        else Inl (Rejected Undefined ''InvalidCharacterError'')),
      tool_exec = (\<lambda>path as. Inr 0)\<rparr>"

definition params_ok :: task_parameters where
  "params_ok =
     \<lparr>imageSource = Str ''imagename'', sourceImageName = Str ''app'',
      sourceImageTag = Str ''latest'', sourceImageId = Undefined,
      repositoryName = Str ''repo'', pushTag = Str ''v1'',
      autoCreateRepository = True, outputVariable = Str ''image''\<rparr>"

text \<open>
  Variations: a registry that denies the repository query, one that refuses the
  authorization-token request, one that answers it with no entry; the environment built on
  a given registry; an environment where only \<open>docker.exe\<close> is found, and one
  without any container CLI.
\<close>

definition registry_denied :: ecr where
  "registry_denied =
     registry_ok\<lparr>describeRepositories := (\<lambda>rs.
       Inl (Rejected (Str ''AccessDeniedException'') ''AccessDeniedException''))\<rparr>"

definition registry_unauthorized :: ecr where
  "registry_unauthorized =
     registry_ok\<lparr>getAuthorizationToken :=
       Inl (Rejected (Str ''UnrecognizedClientException'') ''UnrecognizedClientException'')\<rparr>"

definition registry_empty :: ecr where
  "registry_empty =
     registry_ok\<lparr>getAuthorizationToken := Inr \<lparr>authorizationData = Some []\<rparr>\<rparr>"

definition env_with :: "ecr \<Rightarrow> environment" where
  "env_with c = env_ok\<lparr>createAndConfigureSdkClient := Inr c\<rparr>"

definition env_windows :: environment where
  "env_windows =
     env_ok\<lparr>tl_which := (\<lambda>e check.
       if e = ''docker.exe'' then Inr ''C:/docker.exe''
       else Inl (Rejected Undefined ''not found''))\<rparr>"

definition env_no_docker :: environment where
  "env_no_docker =
     env_ok\<lparr>tl_which := (\<lambda>e check. Inl (Rejected Undefined ''not found''))\<rparr>"

subsection \<open>The local values and the trace segments of \<open>execute\<close>\<close>

text \<open>
  The values of the locals \<open>sourceImageRef\<close> and \<open>targetImageRef\<close> of
  \<open>execute\<close>, the argument lists of its three container-CLI commands, and what each
  stage of a run adds to the trace.
\<close>

definition sourceImageRef :: "environment \<Rightarrow> task_parameters \<Rightarrow> js_value" where
  "sourceImageRef env p =
     (if imageSource p = Str (imageNameSource env)
      then constructTaggedImageName (sourceImageName p) (sourceImageTag p)
      else sourceImageId p)"

definition targetImageRef :: "url \<Rightarrow> task_parameters \<Rightarrow> string" where
  "targetImageRef parsed p =
     to_str (host parsed) @ ''/'' @
     to_str (constructTaggedImageName (repositoryName p) (pushTag p))"

definition tag_args :: "environment \<Rightarrow> task_parameters \<Rightarrow> url \<Rightarrow> js_value list" where
  "tag_args env p parsed = [Str ''tag'', sourceImageRef env p, Str (targetImageRef parsed p)]"

definition login_args :: "authorization_data \<Rightarrow> string \<Rightarrow> js_value list" where
  "login_args auth decoded =
     [Str ''login'', Str ''-u'', js_index (js_split CHR '':'' decoded) 0,
      Str ''-p'', js_index (js_split CHR '':'' decoded) 1, proxyEndpoint auth]"

definition push_args :: "task_parameters \<Rightarrow> url \<Rightarrow> js_value list" where
  "push_args p parsed = [Str ''push'', Str (targetImageRef parsed p)]"

definition auth_trace :: "environment \<Rightarrow> task_parameters \<Rightarrow> event list" where
  "auth_trace env p =
     CreateSdkClient ''2015-09-21'' # fst (locateDockerExecutable env) @
     [ConsoleLog (if imageSource p = Str (imageNameSource env)
                  then ''PushImageWithName'' else ''PushImageWithId'')
        [sourceImageRef env p],
      ConsoleLog ''RequestingAuthToken'' [],
      GetAuthorizationToken]"

definition repository_trace :: "ecr \<Rightarrow> task_parameters \<Rightarrow> event list" where
  "repository_trace c p =
     fst (if autoCreateRepository p
          then createRepositoryIfNeeded c (repositoryName p) else resolve ())"

definition tag_trace ::
  "environment \<Rightarrow> task_parameters \<Rightarrow> string \<Rightarrow> url \<Rightarrow> event list" where
  "tag_trace env p path parsed =
     [ConsoleLog ''AddingTag'' [Str (targetImageRef parsed p), sourceImageRef env p],
      ConsoleLog ''InvokingDockerCommand'' [Str path, Str ''tag''],
      Exec path (tag_args env p parsed)]"

definition login_trace :: "string \<Rightarrow> authorization_data \<Rightarrow> string \<Rightarrow> event list" where
  "login_trace path auth decoded =
     [ConsoleLog ''InvokingDockerCommand'' [Str path, Str ''login''],
      Exec path (login_args auth decoded)]"

definition push_trace :: "task_parameters \<Rightarrow> string \<Rightarrow> url \<Rightarrow> event list" where
  "push_trace p path parsed =
     [ConsoleLog ''PushingImage'' [Str (targetImageRef parsed p)],
      ConsoleLog ''InvokingDockerCommand'' [Str path, Str ''push''],
      Exec path (push_args p parsed)]"

definition output_trace :: "task_parameters \<Rightarrow> url \<Rightarrow> event list" where
  "output_trace p parsed =
     (if truthy (outputVariable p)
      then [ConsoleLog ''SettingOutputVariable''
              [outputVariable p, Str (targetImageRef parsed p)],
            SetVariable (outputVariable p) (targetImageRef parsed p)]
      else []) @
     [ConsoleLog ''TaskCompleted'' []]"

section \<open>Symbolic execution\<close>

text \<open>
  Each operation is brought to a closed form: its trace and its outcome as a function of
  what the environment answers. For \<open>execute\<close> this is the tree of its runs, one
  leaf per point where it can throw and one for the successful run (\<open>execute_eq\<close>).
\<close>

lemma js_split_ne: "js_split c s \<noteq> []"
  by (induction s) auto

lemma js_split_takeWhile:
  "js_split c s = takeWhile (\<lambda>x. x \<noteq> c) s #
     (if c \<in> set s then js_split c (tl (dropWhile (\<lambda>x. x \<noteq> c) s)) else [])"
  by (induction s) (auto simp: js_split_ne)

lemma fold_tool_arg: "fold (\<lambda>a t. tool_arg t a) as t = t\<lparr>args := args t @ as\<rparr>"
  by (induction as arbitrary: t) (simp_all add: tool_arg_def)

lemma docker_args:
  "fold (\<lambda>a t. tool_arg t a) as (tool_arg (tl_tool p) c) = \<lparr>toolPath = p, args = c # as\<rparr>"
  by (simp add: fold_tool_arg) (simp add: tool_arg_def tl_tool_def)

lemma runDockerCommand_eq:
  "runDockerCommand env path cmd as =
     ([ConsoleLog ''InvokingDockerCommand'' [Str path, Str cmd], Exec path (Str cmd # as)],
      case tool_exec env path (Str cmd # as) of Inl e \<Rightarrow> Inl e | Inr _ \<Rightarrow> Inr ())"
  by (simp add: runDockerCommand_def await_def console_log_def request_def resolve_def
      docker_args Let_def split: sum.splits)

lemma tagImage_eq:
  "tagImage env path src tgt =
     ([ConsoleLog ''AddingTag'' [Str tgt, src],
       ConsoleLog ''InvokingDockerCommand'' [Str path, Str ''tag''],
       Exec path [Str ''tag'', src, Str tgt]],
      case tool_exec env path [Str ''tag'', src, Str tgt] of Inl e \<Rightarrow> Inl e | Inr _ \<Rightarrow> Inr ())"
  by (simp add: tagImage_def runDockerCommand_eq await_def console_log_def)

lemma pushImageToECR_eq:
  "pushImageToECR env path ref =
     ([ConsoleLog ''PushingImage'' [Str ref],
       ConsoleLog ''InvokingDockerCommand'' [Str path, Str ''push''],
       Exec path [Str ''push'', Str ref]],
      case tool_exec env path [Str ''push'', Str ref] of Inl e \<Rightarrow> Inl e | Inr _ \<Rightarrow> Inr ())"
  by (simp add: pushImageToECR_def runDockerCommand_eq await_def console_log_def)

lemma loginToRegistry_eq:
  "loginToRegistry env path token endpoint =
     (case base64_decode env token of
        Inl e \<Rightarrow> ([], Inl e)
      | Inr decoded \<Rightarrow>
          ([ConsoleLog ''InvokingDockerCommand'' [Str path, Str ''login''],
            Exec path [Str ''login'', Str ''-u'', js_index (js_split CHR '':'' decoded) 0,
                       Str ''-p'', js_index (js_split CHR '':'' decoded) 1, endpoint]],
           case tool_exec env path
                  [Str ''login'', Str ''-u'', js_index (js_split CHR '':'' decoded) 0,
                   Str ''-p'', js_index (js_split CHR '':'' decoded) 1, endpoint] of
             Inl e \<Rightarrow> Inl e | Inr _ \<Rightarrow> Inr ()))"
  by (simp add: loginToRegistry_def runDockerCommand_eq await_def settle_def Let_def
      split: sum.splits)

lemma createRepositoryIfNeeded_eq:
  "createRepositoryIfNeeded c repo =
     (case describeRepositories c [repo] of
        Inr _ \<Rightarrow> ([ConsoleLog ''TestingForRepository'' [repo], DescribeRepositories [repo]], Inr ())
      | Inl err \<Rightarrow>
          if err_code err = Str ''RepositoryNotFoundException'' then
            ([ConsoleLog ''TestingForRepository'' [repo], DescribeRepositories [repo],
              ConsoleLog ''CreatingRepository'' [], CreateRepository repo],
             createRepository c repo)
          else
            ([ConsoleLog ''TestingForRepository'' [repo], DescribeRepositories [repo]],
             Inl (Error (''Error testing for repository existence: '' @ err_string err))))"
  by (simp add: createRepositoryIfNeeded_def await_def try_catch_def console_log_def
      request_def reject_def split: sum.splits)

lemma getEcrAuthorizationData_eq:
  "getEcrAuthorizationData c =
     ([ConsoleLog ''RequestingAuthToken'' [], GetAuthorizationToken],
      case getAuthorizationToken c of
        Inl err \<Rightarrow> Inl (Error
          (''Failed to obtain authorization token to log in to ECR, error: '' @ err_string err))
      | Inr response \<Rightarrow>
          (case authorizationData response of
             None \<Rightarrow> Inl (Error
               (''Failed to obtain authorization token to log in to ECR, error: '' @
                err_string (TypeError ''Cannot read property 0 of undefined'')))
           | Some [] \<Rightarrow> Inr None
           | Some (a # _) \<Rightarrow> Inr (Some a)))"
  by (simp add: getEcrAuthorizationData_def await_def try_catch_def console_log_def
      request_def reject_def resolve_def split: sum.splits option.splits list.splits)

lemma locateDockerExecutable_eq:
  "locateDockerExecutable env =
     (case tl_which env ''docker'' True of
        Inr p1 \<Rightarrow>
          if p1 \<noteq> [] then ([Which ''docker'' True], Inr p1)
          else (case tl_which env ''docker.exe'' True of
                  Inr p2 \<Rightarrow>
                    if p2 \<noteq> [] then ([Which ''docker'' True, Which ''docker.exe'' True], Inr p2)
                    else ([Which ''docker'' True, Which ''docker.exe'' True],
                          Inl (Error ''Cannot find docker command line executable''))
                | Inl _ \<Rightarrow> ([Which ''docker'' True, Which ''docker.exe'' True],
                          Inl (Error ''Cannot find docker command line executable'')))
      | Inl _ \<Rightarrow>
          (case tl_which env ''docker.exe'' True of
             Inr p2 \<Rightarrow>
               if p2 \<noteq> [] then ([Which ''docker'' True, Which ''docker.exe'' True], Inr p2)
               else ([Which ''docker'' True, Which ''docker.exe'' True],
                     Inl (Error ''Cannot find docker command line executable''))
           | Inl _ \<Rightarrow> ([Which ''docker'' True, Which ''docker.exe'' True],
                     Inl (Error ''Cannot find docker command line executable''))))"
  by (simp add: locateDockerExecutable_def split: sum.splits)

lemma source_step:
  "(if b then (let ref = X in await (console_log ''PushImageWithName'' [ref]) (\<lambda>_. resolve ref))
    else await (console_log ''PushImageWithId'' [Y]) (\<lambda>_. resolve Y)) =
   ([ConsoleLog (if b then ''PushImageWithName'' else ''PushImageWithId'') [if b then X else Y]],
    Inr (if b then X else Y))"
  by (simp add: await_def console_log_def resolve_def)

lemma output_step:
  "(if b then await (console_log k as) (\<lambda>_. request ev (Inr ())) else resolve ()) =
   ((if b then [ConsoleLog k as, ev] else []), Inr ())"
  by (simp add: await_def console_log_def resolve_def request_def)

lemma execute_eq:
  "execute env p =
    (case createAndConfigureSdkClient env of
       Inl e \<Rightarrow> ([CreateSdkClient ''2015-09-21''], Inl e)
     | Inr c \<Rightarrow>
    (case snd (locateDockerExecutable env) of
       Inl e \<Rightarrow> (CreateSdkClient ''2015-09-21'' # fst (locateDockerExecutable env), Inl e)
     | Inr path \<Rightarrow>
    (case snd (getEcrAuthorizationData c) of
       Inl e \<Rightarrow> (auth_trace env p, Inl e)
     | Inr None \<Rightarrow>
         (auth_trace env p,
          Inl (TypeError ''Cannot read property proxyEndpoint of undefined''))
     | Inr (Some auth) \<Rightarrow>
    (case url_parse env (proxyEndpoint auth) of
       Inl e \<Rightarrow> (auth_trace env p, Inl e)
     | Inr parsed \<Rightarrow>
    (case snd (if autoCreateRepository p
               then createRepositoryIfNeeded c (repositoryName p) else resolve ()) of
       Inl e \<Rightarrow> (auth_trace env p @ repository_trace c p, Inl e)
     | Inr _ \<Rightarrow>
    (case tool_exec env path (tag_args env p parsed) of
       Inl e \<Rightarrow>
         (auth_trace env p @ repository_trace c p @ tag_trace env p path parsed, Inl e)
     | Inr _ \<Rightarrow>
    (case base64_decode env (authorizationToken auth) of
       Inl e \<Rightarrow>
         (auth_trace env p @ repository_trace c p @ tag_trace env p path parsed, Inl e)
     | Inr decoded \<Rightarrow>
    (case tool_exec env path (login_args auth decoded) of
       Inl e \<Rightarrow>
         (auth_trace env p @ repository_trace c p @ tag_trace env p path parsed @
          login_trace path auth decoded, Inl e)
     | Inr _ \<Rightarrow>
    (case tool_exec env path (push_args p parsed) of
       Inl e \<Rightarrow>
         (auth_trace env p @ repository_trace c p @ tag_trace env p path parsed @
          login_trace path auth decoded @ push_trace p path parsed, Inl e)
     | Inr _ \<Rightarrow>
         (auth_trace env p @ repository_trace c p @ tag_trace env p path parsed @
          login_trace path auth decoded @ push_trace p path parsed @
          output_trace p parsed, Inr ()))))))))))"
proof (cases "createAndConfigureSdkClient env")
  case (Inl e)
  then show ?thesis
    by (simp add: execute_def await_def createServiceClients_def request_def)
next
  case c: (Inr c)
  obtain wtr r where w: "locateDockerExecutable env = (wtr, r)"
    by (cases "locateDockerExecutable env")
  show ?thesis
  proof (cases r)
    case (Inl e)
    with c w show ?thesis
      by (simp add: execute_def await_def createServiceClients_def request_def)
  next
    case path: (Inr path)
    note pre = c w path execute_def await_def createServiceClients_def request_def
      console_log_def resolve_def reject_def settle_def Let_def source_step output_step
      sourceImageRef_def targetImageRef_def tag_args_def login_args_def push_args_def
      auth_trace_def repository_trace_def tag_trace_def login_trace_def push_trace_def
      output_trace_def
    have "fst (getEcrAuthorizationData c) =
        [ConsoleLog ''RequestingAuthToken'' [], GetAuthorizationToken]"
      by (simp add: getEcrAuthorizationData_eq)
    then obtain ar where a: "getEcrAuthorizationData c =
        ([ConsoleLog ''RequestingAuthToken'' [], GetAuthorizationToken], ar)"
      by (cases "getEcrAuthorizationData c") simp
    show ?thesis
    proof (cases ar)
      case (Inl e)
      with a show ?thesis by (simp add: pre split del: if_split)
    next
      case ad: (Inr authData)
      show ?thesis
      proof (cases authData)
        case None
        with a ad show ?thesis by (simp add: pre split del: if_split)
      next
        case auth: (Some auth)
        show ?thesis
        proof (cases "url_parse env (proxyEndpoint auth)")
          case (Inl e)
          with a ad auth show ?thesis by (simp add: pre split del: if_split)
        next
          case parsed: (Inr parsed)
          note pre2 = a ad auth parsed pre
          obtain rtr rr where rp: "(if autoCreateRepository p
              then createRepositoryIfNeeded c (repositoryName p) else resolve ()) = (rtr, rr)"
            by (cases "if autoCreateRepository p
              then createRepositoryIfNeeded c (repositoryName p) else resolve ()")
          show ?thesis
          proof (cases rr)
            case (Inl e)
            with rp show ?thesis by (simp add: pre2 split del: if_split)
          next
            case ru: (Inr ru)
            show ?thesis
            proof (cases "tool_exec env path (tag_args env p parsed)")
              case (Inl e)
              with rp ru show ?thesis
                by (simp add: pre2 tagImage_eq split del: if_split)
            next
              case tagged: (Inr tu)
              show ?thesis
              proof (cases "base64_decode env (authorizationToken auth)")
                case (Inl e)
                with rp ru tagged show ?thesis
                  by (simp add: pre2 tagImage_eq loginToRegistry_eq split del: if_split)
              next
                case decoded: (Inr decoded)
                show ?thesis
                proof (cases "tool_exec env path (login_args auth decoded)")
                  case (Inl e)
                  with rp ru tagged decoded show ?thesis
                    by (simp add: pre2 tagImage_eq loginToRegistry_eq split del: if_split)
                next
                  case logged: (Inr lu)
                  show ?thesis
                  proof (cases "tool_exec env path (push_args p parsed)")
                    case (Inl e)
                    with rp ru tagged decoded logged show ?thesis
                      by (simp add: pre2 tagImage_eq loginToRegistry_eq pushImageToECR_eq
                          split del: if_split)
                  next
                    case (Inr pu)
                    with rp ru tagged decoded logged show ?thesis
                      by (cases "truthy (outputVariable p)")
                        (simp_all add: pre2 tagImage_eq loginToRegistry_eq pushImageToECR_eq
                          split del: if_split)
                  qed
                qed
              qed
            qed
          qed
        qed
      qed
    qed
  qed
qed

text \<open>What each segment of a trace contributes to each class of events.\<close>

lemma locate_trace:
  "fst (locateDockerExecutable env) = [Which ''docker'' True] \<or>
   fst (locateDockerExecutable env) = [Which ''docker'' True, Which ''docker.exe'' True]"
  by (auto simp: locateDockerExecutable_eq split: sum.splits if_splits)

lemma locate_filters:
  "filter is_action (fst (locateDockerExecutable env)) = []"
  "filter is_registry_request (fst (locateDockerExecutable env)) = []"
  "filter is_repository_request (fst (locateDockerExecutable env)) = []"
  "filter is_exec (fst (locateDockerExecutable env)) = []"
  "filter is_set_variable (fst (locateDockerExecutable env)) = []"
  using locate_trace [of env] by auto

lemma auth_trace_filters:
  "filter is_action (auth_trace env p) = [GetAuthorizationToken]"
  "filter is_registry_request (auth_trace env p) = [GetAuthorizationToken]"
  "filter is_repository_request (auth_trace env p) = []"
  "filter is_exec (auth_trace env p) = []"
  "filter is_set_variable (auth_trace env p) = []"
  by (simp_all add: auth_trace_def locate_filters)

lemma docker_trace_filters:
  "filter is_action (tag_trace env p path parsed) = [Exec path (tag_args env p parsed)]"
  "filter is_action (login_trace path auth decoded) = [Exec path (login_args auth decoded)]"
  "filter is_action (push_trace p path parsed) = [Exec path (push_args p parsed)]"
  "filter is_action (output_trace p parsed) = []"
  "filter is_exec (tag_trace env p path parsed) = [Exec path (tag_args env p parsed)]"
  "filter is_exec (login_trace path auth decoded) = [Exec path (login_args auth decoded)]"
  "filter is_exec (push_trace p path parsed) = [Exec path (push_args p parsed)]"
  "filter is_exec (output_trace p parsed) = []"
  "filter is_registry_request (tag_trace env p path parsed) = []"
  "filter is_registry_request (login_trace path auth decoded) = []"
  "filter is_registry_request (push_trace p path parsed) = []"
  "filter is_registry_request (output_trace p parsed) = []"
  "filter is_repository_request (tag_trace env p path parsed) = []"
  "filter is_repository_request (login_trace path auth decoded) = []"
  "filter is_repository_request (push_trace p path parsed) = []"
  "filter is_repository_request (output_trace p parsed) = []"
  "filter is_set_variable (tag_trace env p path parsed) = []"
  "filter is_set_variable (login_trace path auth decoded) = []"
  "filter is_set_variable (push_trace p path parsed) = []"
  "filter is_set_variable (output_trace p parsed) =
     (if truthy (outputVariable p)
      then [SetVariable (outputVariable p) (targetImageRef parsed p)] else [])"
  by (simp_all add: tag_trace_def login_trace_def push_trace_def output_trace_def)

lemma repository_step:
  "(if auto then createRepositoryIfNeeded c repo else resolve ()) =
     (if auto then
        (case describeRepositories c [repo] of
           Inr _ \<Rightarrow>
             ([ConsoleLog ''TestingForRepository'' [repo], DescribeRepositories [repo]], Inr ())
         | Inl err \<Rightarrow>
             if err_code err = Str ''RepositoryNotFoundException'' then
               ([ConsoleLog ''TestingForRepository'' [repo], DescribeRepositories [repo],
                 ConsoleLog ''CreatingRepository'' [], CreateRepository repo],
                createRepository c repo)
             else
               ([ConsoleLog ''TestingForRepository'' [repo], DescribeRepositories [repo]],
                Inl (Error (''Error testing for repository existence: '' @ err_string err))))
      else ([], Inr ()))"
  by (simp add: createRepositoryIfNeeded_eq resolve_def)

lemma repository_trace_filters:
  "filter is_action (repository_trace c p) = filter is_repository_request (repository_trace c p)"
  "filter is_registry_request (repository_trace c p) =
     filter is_repository_request (repository_trace c p)"
  "filter is_exec (repository_trace c p) = []"
  "filter is_set_variable (repository_trace c p) = []"
  by (auto simp: repository_trace_def repository_step split: sum.splits)

lemma repository_trace_requests:
  "filter is_repository_request (repository_trace c p) =
     (if autoCreateRepository p then
        DescribeRepositories [repositoryName p] #
        (case describeRepositories c [repositoryName p] of
           Inl err \<Rightarrow>
             if err_code err = Str ''RepositoryNotFoundException''
             then [CreateRepository (repositoryName p)] else []
         | Inr _ \<Rightarrow> [])
      else [])"
  by (auto simp: repository_trace_def repository_step split: sum.splits)

lemma repository_step_success:
  assumes "snd (if auto then createRepositoryIfNeeded c repo else resolve ()) = Inr u"
  shows "auto \<longrightarrow> describeRepositories c [repo] = Inr () \<or>
      (\<exists>err. describeRepositories c [repo] = Inl err \<and>
         err_code err = Str ''RepositoryNotFoundException'' \<and>
         createRepository c repo = Inr ())"
  using assms by (auto simp: repository_step split: sum.splits if_splits)

text \<open>
  A run that returns has passed every leaf of the tree: all the answers were successes,
  and the trace is the concatenation of all segments.
\<close>

lemma execute_success_ex:
  assumes "execute env p = (tr, Inr u)"
  shows "\<exists>c path resp auth rest parsed decoded tagged logged pushed.
    createAndConfigureSdkClient env = Inr c \<and>
    snd (locateDockerExecutable env) = Inr path \<and>
    getAuthorizationToken c = Inr resp \<and>
    authorizationData resp = Some (auth # rest) \<and>
    url_parse env (proxyEndpoint auth) = Inr parsed \<and>
    snd (if autoCreateRepository p
         then createRepositoryIfNeeded c (repositoryName p) else resolve ()) = Inr () \<and>
    base64_decode env (authorizationToken auth) = Inr decoded \<and>
    tool_exec env path (tag_args env p parsed) = Inr tagged \<and>
    tool_exec env path (login_args auth decoded) = Inr logged \<and>
    tool_exec env path (push_args p parsed) = Inr pushed \<and>
    tr = auth_trace env p @ repository_trace c p @ tag_trace env p path parsed @
         login_trace path auth decoded @ push_trace p path parsed @ output_trace p parsed"
  using assms
  by (auto simp: execute_eq getEcrAuthorizationData_eq
      split: sum.splits option.splits list.splits split del: if_split)

lemma execute_success:
  assumes "execute env p = (tr, Inr u)"
  obtains (run) c path resp auth rest parsed decoded tagged logged pushed where
    "createAndConfigureSdkClient env = Inr c"
    "snd (locateDockerExecutable env) = Inr path"
    "getAuthorizationToken c = Inr resp"
    "authorizationData resp = Some (auth # rest)"
    "url_parse env (proxyEndpoint auth) = Inr parsed"
    "snd (if autoCreateRepository p
          then createRepositoryIfNeeded c (repositoryName p) else resolve ()) = Inr ()"
    "base64_decode env (authorizationToken auth) = Inr decoded"
    "tool_exec env path (tag_args env p parsed) = Inr tagged"
    "tool_exec env path (login_args auth decoded) = Inr logged"
    "tool_exec env path (push_args p parsed) = Inr pushed"
    "tr = auth_trace env p @ repository_trace c p @ tag_trace env p path parsed @
          login_trace path auth decoded @ push_trace p path parsed @ output_trace p parsed"
  using execute_success_ex [OF assms] by (elim exE conjE) (rule that)

text \<open>The run of the concrete task in the concrete environment.\<close>

lemma execute_env_ok:
  "execute env_ok params_ok =
     ([CreateSdkClient ''2015-09-21'', Which ''docker'' True,
       ConsoleLog ''PushImageWithName'' [Str ''app:latest''],
       ConsoleLog ''RequestingAuthToken'' [], GetAuthorizationToken,
       ConsoleLog ''TestingForRepository'' [Str ''repo''],
       DescribeRepositories [Str ''repo''],
       ConsoleLog ''CreatingRepository'' [], CreateRepository (Str ''repo''),
       ConsoleLog ''AddingTag'' [Str ''reg.test/repo:v1'', Str ''app:latest''],
       ConsoleLog ''InvokingDockerCommand'' [Str ''/bin/docker'', Str ''tag''],
       Exec ''/bin/docker'' [Str ''tag'', Str ''app:latest'', Str ''reg.test/repo:v1''],
       ConsoleLog ''InvokingDockerCommand'' [Str ''/bin/docker'', Str ''login''],
       Exec ''/bin/docker''
         [Str ''login'', Str ''-u'', Str ''AWS'', Str ''-p'', Str ''pw'',
          Str ''https://reg.test''],
       ConsoleLog ''PushingImage'' [Str ''reg.test/repo:v1''],
       ConsoleLog ''InvokingDockerCommand'' [Str ''/bin/docker'', Str ''push''],
       Exec ''/bin/docker'' [Str ''push'', Str ''reg.test/repo:v1''],
       ConsoleLog ''SettingOutputVariable'' [Str ''image'', Str ''reg.test/repo:v1''],
       SetVariable (Str ''image'') ''reg.test/repo:v1'',
       ConsoleLog ''TaskCompleted'' []],
      Inr ())"
  by (simp add: execute_def await_def env_ok_def params_ok_def registry_ok_def
      createServiceClients_def request_def locateDockerExecutable_def console_log_def
      resolve_def settle_def getEcrAuthorizationData_eq createRepositoryIfNeeded_eq
      tagImage_eq loginToRegistry_eq pushImageToECR_eq constructTaggedImageName_def
      js_index_def Let_def)

lemma locate_env_ok: "locateDockerExecutable env_ok = ([Which ''docker'' True], Inr ''/bin/docker'')"
  by (simp add: locateDockerExecutable_eq env_ok_def)

lemma locate_env_with:
  "locateDockerExecutable (env_with c) = ([Which ''docker'' True], Inr ''/bin/docker'')"
  by (simp add: locateDockerExecutable_eq env_ok_def env_with_def)


section \<open>Image names\<close>

text \<open>
  C8. For every image name and tag, \<open>constructTaggedImageName\<close> returns the name,
  a colon and the tag when the tag is a non-empty string, and the name unchanged when the
  tag is the empty string or absent (\<open>undefined\<close> or \<open>null\<close>). In particular
  the target reference built from an empty push tag is the host, a slash and the
  repository name, with no colon after it.
\<close>

theorem constructTaggedImageName_tag:
  "(t \<noteq> [] \<longrightarrow> constructTaggedImageName (Str n) (Str t) = Str (n @ '':'' @ t)) \<and>
   constructTaggedImageName name (Str []) = name \<and>
   constructTaggedImageName name Undefined = name \<and>
   constructTaggedImageName name Null = name \<and>
   to_str h @ ''/'' @ to_str (constructTaggedImageName (Str n) (Str [])) = to_str h @ ''/'' @ n"
  by (simp add: constructTaggedImageName_def)

theorem constructTaggedImageName_tag_witness:
  "constructTaggedImageName (Str ''repo'') (Str ''v1'') = Str ''repo:v1'' \<and>
   constructTaggedImageName (Str ''repo'') (Str []) = Str ''repo''"
  using constructTaggedImageName_tag [of "''v1''" "''repo''" "Str ''repo''" Null]
  by simp


section \<open>Registry login\<close>

lemma js_index_split_0:
  "js_index (js_split c s) 0 = Str (takeWhile (\<lambda>x. x \<noteq> c) s)"
  by (subst js_split_takeWhile) (simp add: js_index_def)

lemma js_split_hd: "hd (js_split c s) = takeWhile (\<lambda>x. x \<noteq> c) s"
  by (induction s) auto

lemma js_index_Cons_1: "js_index (x # ys) 1 = (if ys = [] then Undefined else Str (hd ys))"
  by (cases ys) (simp_all add: js_index_def)

lemma js_index_split_1:
  "js_index (js_split c s) 1 =
     (if c \<in> set s
      then Str (takeWhile (\<lambda>x. x \<noteq> c) (tl (dropWhile (\<lambda>x. x \<noteq> c) s)))
      else Undefined)"
  by (subst js_split_takeWhile) (simp add: js_index_Cons_1 js_split_hd js_split_ne del: One_nat_def)


text \<open>
  C9. Whenever the token decodes, the login command is run with, after \<open>-u\<close>, the
  part of the decoded token before its first colon and, after \<open>-p\<close>, the part between
  the first colon and the next one (or the end): a password that itself contains a colon
  is cut at that colon, and a decoded token without a colon gives \<open>undefined\<close> as
  the password argument.
\<close>

theorem loginToRegistry_credentials:
  assumes "base64_decode env token = Inr decoded"
  shows "fst (loginToRegistry env path token endpoint) =
     [ConsoleLog ''InvokingDockerCommand'' [Str path, Str ''login''],
      Exec path
        [Str ''login'',
         Str ''-u'', Str (takeWhile (\<lambda>x. x \<noteq> CHR '':'') decoded),
         Str ''-p'',
         (if CHR '':'' \<in> set decoded
          then Str (takeWhile (\<lambda>x. x \<noteq> CHR '':'')
                 (tl (dropWhile (\<lambda>x. x \<noteq> CHR '':'') decoded)))
          else Undefined),
         endpoint]]"
  using assms
  by (simp add: loginToRegistry_eq js_index_split_0 js_index_split_1 del: One_nat_def)

theorem loginToRegistry_credentials_witness:
  "base64_decode env_ok (Str ''QVdTOnBhOnNz'') = Inr ''AWS:pa:ss'' \<and>
   fst (loginToRegistry env_ok ''/bin/docker'' (Str ''QVdTOnBhOnNz'') (Str ''https://reg.test'')) =
     [ConsoleLog ''InvokingDockerCommand'' [Str ''/bin/docker'', Str ''login''],
      Exec ''/bin/docker''
        [Str ''login'', Str ''-u'', Str ''AWS'', Str ''-p'', Str ''pa'',
         Str ''https://reg.test'']] \<and>
   base64_decode env_ok (Str ''QVdT'') = Inr ''AWS'' \<and>
   fst (loginToRegistry env_ok ''/bin/docker'' (Str ''QVdT'') (Str ''https://reg.test'')) =
     [ConsoleLog ''InvokingDockerCommand'' [Str ''/bin/docker'', Str ''login''],
      Exec ''/bin/docker''
        [Str ''login'', Str ''-u'', Str ''AWS'', Str ''-p'', Undefined,
         Str ''https://reg.test'']]"
proof -
  have a: "base64_decode env_ok (Str ''QVdTOnBhOnNz'') = Inr ''AWS:pa:ss''"
    by (simp add: env_ok_def)
  have b: "base64_decode env_ok (Str ''QVdT'') = Inr ''AWS''"
    by (simp add: env_ok_def)
  show ?thesis
    using a b
      loginToRegistry_credentials [OF a, of "''/bin/docker''" "Str ''https://reg.test''"]
      loginToRegistry_credentials [OF b, of "''/bin/docker''" "Str ''https://reg.test''"]
    by simp
qed

section \<open>The order of the external actions\<close>

text \<open>
  C1. Every successful run starts by building the registry client, and its actions on
  the registry and on the container CLI are then, in this order: the authorization-token
  request; when \<open>autoCreateRepository\<close> is
  set, the query for the repository, followed by the creation of the repository exactly
  when the query failed; the \<open>tag\<close> command; the \<open>login\<close> command; the
  \<open>push\<close> command. Each of them returned without error (the query either succeeded
  or failed with \<open>RepositoryNotFoundException\<close>) before the next one was started.
\<close>

theorem execute_order:
  assumes "execute env p = (tr, Inr u)"
  shows "\<exists>c path resp auth rest parsed decoded tagged logged pushed.
    createAndConfigureSdkClient env = Inr c \<and>
    snd (locateDockerExecutable env) = Inr path \<and>
    getAuthorizationToken c = Inr resp \<and>
    authorizationData resp = Some (auth # rest) \<and>
    url_parse env (proxyEndpoint auth) = Inr parsed \<and>
    base64_decode env (authorizationToken auth) = Inr decoded \<and>
    (autoCreateRepository p \<longrightarrow>
       describeRepositories c [repositoryName p] = Inr () \<or>
       (\<exists>err. describeRepositories c [repositoryName p] = Inl err \<and>
          err_code err = Str ''RepositoryNotFoundException'' \<and>
          createRepository c (repositoryName p) = Inr ())) \<and>
    tool_exec env path (tag_args env p parsed) = Inr tagged \<and>
    tool_exec env path (login_args auth decoded) = Inr logged \<and>
    tool_exec env path (push_args p parsed) = Inr pushed \<and>
    filter is_action tr =
      GetAuthorizationToken #
      (if autoCreateRepository p then
         DescribeRepositories [repositoryName p] #
         (case describeRepositories c [repositoryName p] of
            Inl err \<Rightarrow> [CreateRepository (repositoryName p)] | Inr _ \<Rightarrow> [])
       else []) @
      [Exec path (tag_args env p parsed),
       Exec path (login_args auth decoded),
       Exec path (push_args p parsed)] \<and>
    take 1 tr = [CreateSdkClient ''2015-09-21'']"
  using assms
proof (cases rule: execute_success)
  case (run c path resp auth rest parsed decoded tagged logged pushed)
  note repo = repository_step_success [OF run(6)]
  have "filter is_repository_request (repository_trace c p) =
      (if autoCreateRepository p then
         DescribeRepositories [repositoryName p] #
         (case describeRepositories c [repositoryName p] of
            Inl err \<Rightarrow> [CreateRepository (repositoryName p)] | Inr _ \<Rightarrow> [])
       else [])"
    using repo by (auto simp: repository_trace_requests split: sum.splits)
  then have steps: "filter is_action tr =
      GetAuthorizationToken #
      (if autoCreateRepository p then
         DescribeRepositories [repositoryName p] #
         (case describeRepositories c [repositoryName p] of
            Inl err \<Rightarrow> [CreateRepository (repositoryName p)] | Inr _ \<Rightarrow> [])
       else []) @
      [Exec path (tag_args env p parsed),
       Exec path (login_args auth decoded),
       Exec path (push_args p parsed)]"
    by (simp add: run(11) auth_trace_filters docker_trace_filters
        repository_trace_filters split del: if_split)
  have client: "take 1 tr = [CreateSdkClient ''2015-09-21'']"
    by (simp add: run(11) auth_trace_def)
  show ?thesis
    using run(1-5) run(7) repo run(8-10) steps client
    by (intro exI conjI)
qed

theorem execute_order_witness:
  "snd (execute env_ok params_ok) = Inr () \<and>
   filter is_action (fst (execute env_ok params_ok)) =
     [GetAuthorizationToken,
      DescribeRepositories [Str ''repo''],
      CreateRepository (Str ''repo''),
      Exec ''/bin/docker'' [Str ''tag'', Str ''app:latest'', Str ''reg.test/repo:v1''],
      Exec ''/bin/docker''
        [Str ''login'', Str ''-u'', Str ''AWS'', Str ''-p'', Str ''pw'', Str ''https://reg.test''],
      Exec ''/bin/docker'' [Str ''push'', Str ''reg.test/repo:v1'']]"
proof -
  have run: "execute env_ok params_ok = (fst (execute env_ok params_ok), Inr ())"
    by (simp add: execute_env_ok)
  show ?thesis
    using execute_order [OF run] by (simp add: execute_env_ok)
qed


section \<open>The output variable\<close>

lemma targetImageRef_eq:
  "targetImageRef parsed p =
     to_str (host parsed) @ ''/'' @ to_str (repositoryName p) @
     (if truthy (pushTag p) then '':'' @ to_str (pushTag p) else [])"
  by (simp add: targetImageRef_def constructTaggedImageName_def)


text \<open>
  C5. In every successful run with a non-empty \<open>outputVariable\<close> exactly one
  pipeline variable is set, the one named by \<open>outputVariable\<close>, and its value is the
  reference that was pushed: the host of the parsed \<open>proxyEndpoint\<close>, a slash, the
  repository name and, when \<open>pushTag\<close> is non-empty, a colon and the tag. With an
  empty \<open>outputVariable\<close> no pipeline variable is set, in any run.
\<close>

theorem output_variable:
  "(execute env p = (tr, Inr u) \<longrightarrow>
      (\<exists>c path resp auth rest parsed ref.
         createAndConfigureSdkClient env = Inr c \<and>
         snd (locateDockerExecutable env) = Inr path \<and>
         getAuthorizationToken c = Inr resp \<and>
         authorizationData resp = Some (auth # rest) \<and>
         url_parse env (proxyEndpoint auth) = Inr parsed \<and>
         ref = to_str (host parsed) @ ''/'' @ to_str (repositoryName p) @
               (if truthy (pushTag p) then '':'' @ to_str (pushTag p) else []) \<and>
         Exec path [Str ''push'', Str ref] \<in> set tr \<and>
         filter is_set_variable tr =
           (if truthy (outputVariable p) then [SetVariable (outputVariable p) ref] else []))) \<and>
   (\<not> truthy (outputVariable p) \<longrightarrow> filter is_set_variable (fst (execute env p)) = [])"
proof (intro conjI impI)
  assume "execute env p = (tr, Inr u)"
  then show "\<exists>c path resp auth rest parsed ref.
         createAndConfigureSdkClient env = Inr c \<and>
         snd (locateDockerExecutable env) = Inr path \<and>
         getAuthorizationToken c = Inr resp \<and>
         authorizationData resp = Some (auth # rest) \<and>
         url_parse env (proxyEndpoint auth) = Inr parsed \<and>
         ref = to_str (host parsed) @ ''/'' @ to_str (repositoryName p) @
               (if truthy (pushTag p) then '':'' @ to_str (pushTag p) else []) \<and>
         Exec path [Str ''push'', Str ref] \<in> set tr \<and>
         filter is_set_variable tr =
           (if truthy (outputVariable p) then [SetVariable (outputVariable p) ref] else [])"
  proof (cases rule: execute_success)
    case (run c path resp auth rest parsed decoded tagged logged pushed)
    have a: "Exec path [Str ''push'', Str (targetImageRef parsed p)] \<in> set tr"
      by (simp add: run(11) push_trace_def push_args_def)
    have b: "filter is_set_variable tr =
        (if truthy (outputVariable p)
         then [SetVariable (outputVariable p) (targetImageRef parsed p)] else [])"
      by (simp add: run(11) auth_trace_filters docker_trace_filters repository_trace_filters)
    show ?thesis
      using run(1-5) a b unfolding targetImageRef_eq
      by (intro exI conjI) (assumption | rule refl)+
  qed
next
  assume "\<not> truthy (outputVariable p)"
  then show "filter is_set_variable (fst (execute env p)) = []"
    by (simp add: execute_eq auth_trace_filters docker_trace_filters repository_trace_filters
        locate_filters split: sum.splits option.splits)
qed

theorem output_variable_witness:
  "execute env_ok params_ok = (fst (execute env_ok params_ok), Inr ()) \<and>
   filter is_set_variable (fst (execute env_ok params_ok)) =
     [SetVariable (Str ''image'') ''reg.test/repo:v1''] \<and>
   \<not> truthy (outputVariable (params_ok\<lparr>outputVariable := Str []\<rparr>)) \<and>
   filter is_set_variable (fst (execute env_ok (params_ok\<lparr>outputVariable := Str []\<rparr>))) = []"
proof -
  have run: "execute env_ok params_ok = (fst (execute env_ok params_ok), Inr ())"
    by (simp add: execute_env_ok)
  have off: "\<not> truthy (outputVariable (params_ok\<lparr>outputVariable := Str []\<rparr>))"
    by simp
  show ?thesis
    using run off
      output_variable [of env_ok params_ok "fst (execute env_ok params_ok)" "()"]
      output_variable [of env_ok "params_ok\<lparr>outputVariable := Str []\<rparr>"]
    by (simp add: execute_env_ok)
qed

section \<open>The source image reference\<close>

lemma execute_exec_events:
  assumes "ev \<in> set (fst (execute env p))" "is_exec ev"
  shows "\<exists>path parsed auth decoded.
    snd (locateDockerExecutable env) = Inr path \<and>
    (ev = Exec path (tag_args env p parsed) \<or>
     ev = Exec path (login_args auth decoded) \<or>
     ev = Exec path (push_args p parsed))"
proof -
  from assms have "ev \<in> set (filter is_exec (fst (execute env p)))"
    by simp
  then show ?thesis
    by (auto simp: execute_eq auth_trace_filters docker_trace_filters repository_trace_filters
        locate_filters simp del: set_filter split: sum.splits option.splits)
qed


text \<open>
  C2. In every run, the source reference handed to the \<open>tag\<close> command is
  \<open>sourceImageName\<close> combined with \<open>sourceImageTag\<close> by
  \<open>constructTaggedImageName\<close> when \<open>imageSource\<close> equals the image-name source,
  and is \<open>sourceImageId\<close> otherwise; in the second case the run does not depend on
  \<open>sourceImageName\<close> and \<open>sourceImageTag\<close> at all.
\<close>

theorem tag_by_name_or_by_id:
  "(\<forall>path src tgt.
      Exec path [Str ''tag'', src, tgt] \<in> set (fst (execute env p)) \<longrightarrow>
      src = (if imageSource p = Str (imageNameSource env)
             then constructTaggedImageName (sourceImageName p) (sourceImageTag p)
             else sourceImageId p)) \<and>
   (imageSource p \<noteq> Str (imageNameSource env) \<longrightarrow>
      execute env (p\<lparr>sourceImageName := n, sourceImageTag := t\<rparr>) = execute env p)"
proof (intro conjI allI impI)
  fix path src tgt
  assume "Exec path [Str ''tag'', src, tgt] \<in> set (fst (execute env p))"
  from execute_exec_events [OF this]
  show "src = (if imageSource p = Str (imageNameSource env)
             then constructTaggedImageName (sourceImageName p) (sourceImageTag p)
             else sourceImageId p)"
    by (auto simp: tag_args_def login_args_def push_args_def sourceImageRef_def)
next
  assume "imageSource p \<noteq> Str (imageNameSource env)"
  then show "execute env (p\<lparr>sourceImageName := n, sourceImageTag := t\<rparr>) = execute env p"
    by (simp add: execute_eq auth_trace_def repository_trace_def tag_trace_def push_trace_def
        output_trace_def tag_args_def push_args_def sourceImageRef_def targetImageRef_def
        split del: if_split cong: sum.case_cong option.case_cong if_cong)
qed


theorem tag_by_name_or_by_id_witness:
  "Exec ''/bin/docker'' [Str ''tag'', Str ''app:latest'', Str ''reg.test/repo:v1'']
     \<in> set (fst (execute env_ok params_ok)) \<and>
   Str ''app:latest'' =
     (if imageSource params_ok = Str (imageNameSource env_ok)
      then constructTaggedImageName (sourceImageName params_ok) (sourceImageTag params_ok)
      else sourceImageId params_ok) \<and>
   imageSource (params_ok\<lparr>imageSource := Str ''imageid''\<rparr>) \<noteq> Str (imageNameSource env_ok) \<and>
   execute env_ok
     (params_ok\<lparr>imageSource := Str ''imageid'', sourceImageName := Undefined,
        sourceImageTag := Str ''x''\<rparr>) =
   execute env_ok (params_ok\<lparr>imageSource := Str ''imageid''\<rparr>)"
proof -
  have a: "Exec ''/bin/docker'' [Str ''tag'', Str ''app:latest'', Str ''reg.test/repo:v1'']
      \<in> set (fst (execute env_ok params_ok))"
    by (simp add: execute_env_ok)
  have b: "imageSource (params_ok\<lparr>imageSource := Str ''imageid''\<rparr>) \<noteq>
      Str (imageNameSource env_ok)"
    by (simp add: env_ok_def)
  have c: "Str ''app:latest'' =
     (if imageSource params_ok = Str (imageNameSource env_ok)
      then constructTaggedImageName (sourceImageName params_ok) (sourceImageTag params_ok)
      else sourceImageId params_ok)"
    using a tag_by_name_or_by_id [where env = env_ok and p = params_ok] by blast
  have d: "execute env_ok
     (params_ok\<lparr>imageSource := Str ''imageid'', sourceImageName := Undefined,
        sourceImageTag := Str ''x''\<rparr>) =
     execute env_ok (params_ok\<lparr>imageSource := Str ''imageid''\<rparr>)"
    using b tag_by_name_or_by_id [where env = env_ok and n = Undefined and t = "Str ''x''"
        and p = "params_ok\<lparr>imageSource := Str ''imageid''\<rparr>"]
    by blast
  from a b c d show ?thesis by blast
qed

section \<open>Repository creation is optional\<close>

text \<open>
  C4. In every run in which \<open>autoCreateRepository\<close> is not set, the trace has neither
  a repository-existence query nor a create-repository request: the registry API requests
  of the run are the authorization-token request alone, or none when the run stopped
  before it.
\<close>

theorem repository_creation_optional:
  assumes "\<not> autoCreateRepository p"
  shows "filter is_repository_request (fst (execute env p)) = [] \<and>
    filter is_registry_request (fst (execute env p)) \<in> {[], [GetAuthorizationToken]}"
  using assms
  by (simp add: execute_eq auth_trace_filters docker_trace_filters repository_trace_filters
      repository_trace_requests locate_filters split: sum.splits option.splits)

theorem repository_creation_optional_witness:
  "\<not> autoCreateRepository (params_ok\<lparr>autoCreateRepository := False\<rparr>) \<and>
   filter is_repository_request
     (fst (execute env_ok (params_ok\<lparr>autoCreateRepository := False\<rparr>))) = [] \<and>
   filter is_registry_request
     (fst (execute env_ok (params_ok\<lparr>autoCreateRepository := False\<rparr>)))
     \<in> {[], [GetAuthorizationToken]}"
proof -
  have off: "\<not> autoCreateRepository (params_ok\<lparr>autoCreateRepository := False\<rparr>)"
    by simp
  show ?thesis
    using off repository_creation_optional [OF off, of env_ok] by simp
qed

section \<open>Creating the repository when it is missing\<close>

lemma execute_reaches_repository:
  assumes "createAndConfigureSdkClient env = Inr c"
    and "snd (locateDockerExecutable env) = Inr path"
    and "getAuthorizationToken c = Inr resp"
    and "authorizationData resp = Some (auth # rest)"
    and "url_parse env (proxyEndpoint auth) = Inr parsed"
  shows "filter is_repository_request (fst (execute env p)) =
      filter is_repository_request (repository_trace c p)"
    and "snd (if autoCreateRepository p
              then createRepositoryIfNeeded c (repositoryName p) else resolve ()) = Inl e
      \<Longrightarrow> snd (execute env p) = Inl e"
  using assms
  by (simp_all add: execute_eq getEcrAuthorizationData_eq auth_trace_filters
      docker_trace_filters split: sum.splits)


text \<open>
  C3. When \<open>autoCreateRepository\<close> is set and the run gets past the authorization
  token, the requests about the repository begin with the query for the repository by
  name; the create-repository request is made exactly when that query fails with code
  \<open>RepositoryNotFoundException\<close>; when it fails with another error the task aborts
  with the message \<open>Error testing for repository existence: \<close> followed by the error,
  and no create-repository request is made.
\<close>

theorem create_repository_if_missing:
  assumes "autoCreateRepository p"
    and "createAndConfigureSdkClient env = Inr c"
    and "snd (locateDockerExecutable env) = Inr path"
    and "getAuthorizationToken c = Inr resp"
    and "authorizationData resp = Some (auth # rest)"
    and "url_parse env (proxyEndpoint auth) = Inr parsed"
  shows "filter is_repository_request (fst (execute env p)) =
      DescribeRepositories [repositoryName p] #
      (case describeRepositories c [repositoryName p] of
         Inl err \<Rightarrow>
           if err_code err = Str ''RepositoryNotFoundException''
           then [CreateRepository (repositoryName p)] else []
       | Inr _ \<Rightarrow> []) \<and>
    ((\<exists>r. CreateRepository r \<in> set (fst (execute env p))) \<longleftrightarrow>
       (\<exists>err. describeRepositories c [repositoryName p] = Inl err \<and>
          err_code err = Str ''RepositoryNotFoundException'')) \<and>
    (\<forall>err. describeRepositories c [repositoryName p] = Inl err \<and>
       err_code err \<noteq> Str ''RepositoryNotFoundException'' \<longrightarrow>
       snd (execute env p) =
         Inl (Error (''Error testing for repository existence: '' @ err_string err)))"
proof -
  have requests: "filter is_repository_request (fst (execute env p)) =
      DescribeRepositories [repositoryName p] #
      (case describeRepositories c [repositoryName p] of
         Inl err \<Rightarrow>
           if err_code err = Str ''RepositoryNotFoundException''
           then [CreateRepository (repositoryName p)] else []
       | Inr _ \<Rightarrow> [])"
    using assms(1)
    by (simp add: execute_reaches_repository(1) [OF assms(2-6)] repository_trace_requests)
  have "(\<exists>r. CreateRepository r \<in> set (fst (execute env p))) \<longleftrightarrow>
      (\<exists>r. CreateRepository r \<in> set (filter is_repository_request (fst (execute env p))))"
    by simp
  also have "\<dots> \<longleftrightarrow> (\<exists>err. describeRepositories c [repositoryName p] = Inl err \<and>
          err_code err = Str ''RepositoryNotFoundException'')"
    unfolding requests by (cases "describeRepositories c [repositoryName p]") auto
  finally have created: "(\<exists>r. CreateRepository r \<in> set (fst (execute env p))) \<longleftrightarrow>
      (\<exists>err. describeRepositories c [repositoryName p] = Inl err \<and>
          err_code err = Str ''RepositoryNotFoundException'')" .
  have aborted: "snd (execute env p) =
      Inl (Error (''Error testing for repository existence: '' @ err_string err))"
    if "describeRepositories c [repositoryName p] = Inl err"
      and "err_code err \<noteq> Str ''RepositoryNotFoundException''" for err
  proof (rule execute_reaches_repository(2) [OF assms(2-6)])
    show "snd (if autoCreateRepository p
              then createRepositoryIfNeeded c (repositoryName p) else resolve ()) =
        Inl (Error (''Error testing for repository existence: '' @ err_string err))"
      using that assms(1) by (simp add: repository_step)
  qed
  from requests created aborted show ?thesis by blast
qed


theorem create_repository_if_missing_witness:
  "autoCreateRepository params_ok \<and>
   filter is_repository_request (fst (execute env_ok params_ok)) =
     [DescribeRepositories [Str ''repo''], CreateRepository (Str ''repo'')] \<and>
   filter is_repository_request (fst (execute (env_with registry_denied) params_ok)) =
     [DescribeRepositories [Str ''repo'']] \<and>
   snd (execute (env_with registry_denied) params_ok) =
     Inl (Error ''Error testing for repository existence: AccessDeniedException'')"
proof -
  have auto: "autoCreateRepository params_ok"
    by (simp add: params_ok_def)
  have client: "createAndConfigureSdkClient env_ok = Inr registry_ok"
    "createAndConfigureSdkClient (env_with registry_denied) = Inr registry_denied"
    by (simp_all add: env_ok_def env_with_def)
  have docker: "snd (locateDockerExecutable env_ok) = Inr ''/bin/docker''"
    "snd (locateDockerExecutable (env_with registry_denied)) = Inr ''/bin/docker''"
    by (simp_all add: locate_env_ok locate_env_with)
  have token:
    "getAuthorizationToken registry_ok = Inr \<lparr>authorizationData = Some
       [\<lparr>authorizationToken = Str ''QVdTOnB3'', proxyEndpoint = Str ''https://reg.test''\<rparr>]\<rparr>"
    "getAuthorizationToken registry_denied = Inr \<lparr>authorizationData = Some
       [\<lparr>authorizationToken = Str ''QVdTOnB3'', proxyEndpoint = Str ''https://reg.test''\<rparr>]\<rparr>"
    by (simp_all add: registry_ok_def registry_denied_def)
  have entry: "authorizationData \<lparr>authorizationData = Some
       [\<lparr>authorizationToken = Str ''QVdTOnB3'', proxyEndpoint = Str ''https://reg.test''\<rparr>]\<rparr> =
     Some (\<lparr>authorizationToken = Str ''QVdTOnB3'', proxyEndpoint = Str ''https://reg.test''\<rparr> # [])"
    by simp
  have parsed:
    "url_parse env_ok (proxyEndpoint
       \<lparr>authorizationToken = Str ''QVdTOnB3'', proxyEndpoint = Str ''https://reg.test''\<rparr>) =
     Inr \<lparr>host = Str ''reg.test''\<rparr>"
    "url_parse (env_with registry_denied) (proxyEndpoint
       \<lparr>authorizationToken = Str ''QVdTOnB3'', proxyEndpoint = Str ''https://reg.test''\<rparr>) =
     Inr \<lparr>host = Str ''reg.test''\<rparr>"
    by (simp_all add: env_ok_def env_with_def)
  show ?thesis
    using auto
      create_repository_if_missing
        [OF auto client(1) docker(1) token(1) entry parsed(1)]
      create_repository_if_missing
        [OF auto client(2) docker(2) token(2) entry parsed(2)]
    by (simp add: registry_ok_def registry_denied_def params_ok_def)
qed

section \<open>Authentication failure\<close>

text \<open>
  C6. In every run in which the authorization-token request is made and fails,
  \<open>execute\<close> throws an error whose message is
  \<open>Failed to obtain authorization token to log in to ECR, error: \<close> followed by the
  failure, and no container-CLI command is run.
\<close>

theorem authentication_failure:
  assumes "createAndConfigureSdkClient env = Inr c"
    and "getAuthorizationToken c = Inl err"
    and "GetAuthorizationToken \<in> set (fst (execute env p))"
  shows "snd (execute env p) =
      Inl (Error (''Failed to obtain authorization token to log in to ECR, error: '' @
                  err_string err)) \<and>
    filter is_exec (fst (execute env p)) = []"
proof (cases "snd (locateDockerExecutable env)")
  case (Inl e)
  have "filter is_registry_request (fst (execute env p)) = []"
    using assms(1) Inl by (simp add: execute_eq locate_filters)
  moreover have "GetAuthorizationToken \<in> set (filter is_registry_request (fst (execute env p)))"
    using assms(3) by simp
  ultimately show ?thesis by simp
next
  case (Inr path)
  with assms(1,2) show ?thesis
    by (simp add: execute_eq getEcrAuthorizationData_eq auth_trace_filters)
qed


theorem authentication_failure_witness:
  "createAndConfigureSdkClient (env_with registry_unauthorized) = Inr registry_unauthorized \<and>
   getAuthorizationToken registry_unauthorized =
     Inl (Rejected (Str ''UnrecognizedClientException'') ''UnrecognizedClientException'') \<and>
   GetAuthorizationToken \<in> set (fst (execute (env_with registry_unauthorized) params_ok)) \<and>
   snd (execute (env_with registry_unauthorized) params_ok) =
     Inl (Error (''Failed to obtain authorization token to log in to ECR, error: '' @
                 ''UnrecognizedClientException'')) \<and>
   filter is_exec (fst (execute (env_with registry_unauthorized) params_ok)) = []"
proof -
  have client: "createAndConfigureSdkClient (env_with registry_unauthorized) =
      Inr registry_unauthorized"
    by (simp add: env_with_def)
  have token: "getAuthorizationToken registry_unauthorized =
      Inl (Rejected (Str ''UnrecognizedClientException'') ''UnrecognizedClientException'')"
    by (simp add: registry_unauthorized_def)
  have requested:
    "GetAuthorizationToken \<in> set (fst (execute (env_with registry_unauthorized) params_ok))"
    by (simp add: execute_eq client locate_env_with getEcrAuthorizationData_eq token
        auth_trace_def)
  show ?thesis
    using client token requested authentication_failure [OF client token requested]
    by simp
qed

section \<open>Locating the container CLI\<close>

text \<open>
  C7. After the client is built, \<open>docker\<close> is looked up first and \<open>docker.exe\<close>
  only when \<open>docker\<close> was not found; the first path found is the tool of every
  command the run executes; when neither is found, \<open>execute\<close> throws
  \<open>Cannot find docker command line executable\<close> and the trace holds the client
  construction and the two lookups only: no registry request and no command.
\<close>

theorem docker_location:
  assumes "createAndConfigureSdkClient env = Inr c"
  shows "(tl_which env ''docker'' True = Inr p1 \<and> p1 \<noteq> [] \<longrightarrow>
      locateDockerExecutable env = ([Which ''docker'' True], Inr p1)) \<and>
    ((\<forall>p1. tl_which env ''docker'' True = Inr p1 \<longrightarrow> p1 = []) \<and>
     tl_which env ''docker.exe'' True = Inr p2 \<and> p2 \<noteq> [] \<longrightarrow>
      locateDockerExecutable env =
        ([Which ''docker'' True, Which ''docker.exe'' True], Inr p2)) \<and>
    ((\<forall>p1. tl_which env ''docker'' True = Inr p1 \<longrightarrow> p1 = []) \<and>
     (\<forall>p2. tl_which env ''docker.exe'' True = Inr p2 \<longrightarrow> p2 = []) \<longrightarrow>
      execute env p =
        ([CreateSdkClient ''2015-09-21'', Which ''docker'' True, Which ''docker.exe'' True],
         Inl (Error ''Cannot find docker command line executable''))) \<and>
    (\<forall>path q as.
       snd (locateDockerExecutable env) = Inr path \<and>
       Exec q as \<in> set (fst (execute env p)) \<longrightarrow> q = path)"
proof (intro conjI allI impI)
  assume "tl_which env ''docker'' True = Inr p1 \<and> p1 \<noteq> []"
  then show "locateDockerExecutable env = ([Which ''docker'' True], Inr p1)"
    by (simp add: locateDockerExecutable_eq)
next
  assume "(\<forall>p1. tl_which env ''docker'' True = Inr p1 \<longrightarrow> p1 = []) \<and>
     tl_which env ''docker.exe'' True = Inr p2 \<and> p2 \<noteq> []"
  then show "locateDockerExecutable env =
        ([Which ''docker'' True, Which ''docker.exe'' True], Inr p2)"
    by (simp add: locateDockerExecutable_eq split: sum.splits)
next
  assume "(\<forall>p1. tl_which env ''docker'' True = Inr p1 \<longrightarrow> p1 = []) \<and>
     (\<forall>p2. tl_which env ''docker.exe'' True = Inr p2 \<longrightarrow> p2 = [])"
  then have "locateDockerExecutable env =
      ([Which ''docker'' True, Which ''docker.exe'' True],
       Inl (Error ''Cannot find docker command line executable''))"
    by (simp add: locateDockerExecutable_eq split: sum.splits)
  with assms show "execute env p =
        ([CreateSdkClient ''2015-09-21'', Which ''docker'' True, Which ''docker.exe'' True],
         Inl (Error ''Cannot find docker command line executable''))"
    by (simp add: execute_eq)
next
  fix path q as
  assume a: "snd (locateDockerExecutable env) = Inr path \<and>
       Exec q as \<in> set (fst (execute env p))"
  then have "Exec q as \<in> set (fst (execute env p))" "is_exec (Exec q as)"
    by simp_all
  from execute_exec_events [OF this] a show "q = path"
    by auto
qed


theorem docker_location_witness:
  "createAndConfigureSdkClient env_ok = Inr registry_ok \<and>
   tl_which env_ok ''docker'' True = Inr ''/bin/docker'' \<and>
   locateDockerExecutable env_ok = ([Which ''docker'' True], Inr ''/bin/docker'') \<and>
   Exec ''/bin/docker'' [Str ''push'', Str ''reg.test/repo:v1'']
     \<in> set (fst (execute env_ok params_ok)) \<and>
   tl_which env_windows ''docker.exe'' True = Inr ''C:/docker.exe'' \<and>
   locateDockerExecutable env_windows =
     ([Which ''docker'' True, Which ''docker.exe'' True], Inr ''C:/docker.exe'') \<and>
   execute env_no_docker params_ok =
     ([CreateSdkClient ''2015-09-21'', Which ''docker'' True, Which ''docker.exe'' True],
      Inl (Error ''Cannot find docker command line executable''))"
proof -
  have client: "createAndConfigureSdkClient env_ok = Inr registry_ok"
    "createAndConfigureSdkClient env_windows = Inr registry_ok"
    "createAndConfigureSdkClient env_no_docker = Inr registry_ok"
    by (simp_all add: env_ok_def env_windows_def env_no_docker_def)
  have found: "tl_which env_ok ''docker'' True = Inr ''/bin/docker''"
    "tl_which env_windows ''docker.exe'' True = Inr ''C:/docker.exe''"
    by (simp_all add: env_ok_def env_windows_def)
  have nonempty: "''/bin/docker'' \<noteq> []" "''C:/docker.exe'' \<noteq> []"
    by simp_all
  have missing: "\<forall>p1. tl_which env_windows ''docker'' True = Inr p1 \<longrightarrow> p1 = []"
    "\<forall>p1. tl_which env_no_docker ''docker'' True = Inr p1 \<longrightarrow> p1 = []"
    "\<forall>p2. tl_which env_no_docker ''docker.exe'' True = Inr p2 \<longrightarrow> p2 = []"
    by (simp_all add: env_ok_def env_windows_def env_no_docker_def)
  have pushed: "Exec ''/bin/docker'' [Str ''push'', Str ''reg.test/repo:v1'']
      \<in> set (fst (execute env_ok params_ok))"
    by (simp add: execute_env_ok)
  have first: "locateDockerExecutable env_ok = ([Which ''docker'' True], Inr ''/bin/docker'')"
    using docker_location [OF client(1), where ?p1.0 = "''/bin/docker''"] found(1) nonempty(1)
    by blast
  have second: "locateDockerExecutable env_windows =
      ([Which ''docker'' True, Which ''docker.exe'' True], Inr ''C:/docker.exe'')"
    using docker_location [OF client(2), where ?p2.0 = "''C:/docker.exe''"]
      missing(1) found(2) nonempty(2)
    by blast
  have neither: "execute env_no_docker params_ok =
      ([CreateSdkClient ''2015-09-21'', Which ''docker'' True, Which ''docker.exe'' True],
       Inl (Error ''Cannot find docker command line executable''))"
    using docker_location [OF client(3), where p = params_ok] missing(2,3)
    by blast
  from client(1) found first pushed second neither show ?thesis
    by (intro conjI)
qed

section \<open>The first authorization entry\<close>

text \<open>
  C10. \<open>getEcrAuthorizationData\<close> returns the first entry of the
  \<open>authorizationData\<close> array of a successful response, and \<open>undefined\<close>,
  without error, when the array is empty. \<open>execute\<close> then throws a
  \<open>TypeError\<close> on reading \<open>proxyEndpoint\<close>, right after the token request;
  and every successful run had a response with at least one entry whose
  \<open>proxyEndpoint\<close> was parsed without error.
\<close>

theorem authorization_data_first_entry:
  "(getAuthorizationToken c = Inr resp \<and> authorizationData resp = Some ads \<longrightarrow>
      snd (getEcrAuthorizationData c) =
        Inr (case ads of [] \<Rightarrow> None | a # _ \<Rightarrow> Some a)) \<and>
   (createAndConfigureSdkClient env = Inr c \<and>
    snd (locateDockerExecutable env) = Inr path \<and>
    getAuthorizationToken c = Inr resp \<and> authorizationData resp = Some [] \<longrightarrow>
      snd (execute env p) =
        Inl (TypeError ''Cannot read property proxyEndpoint of undefined'') \<and>
      filter is_action (fst (execute env p)) = [GetAuthorizationToken]) \<and>
   (execute env p = (tr, Inr u) \<longrightarrow>
      (\<exists>c resp auth rest parsed.
         createAndConfigureSdkClient env = Inr c \<and>
         getAuthorizationToken c = Inr resp \<and>
         authorizationData resp = Some (auth # rest) \<and>
         url_parse env (proxyEndpoint auth) = Inr parsed))"
proof (intro conjI impI)
  assume "getAuthorizationToken c = Inr resp \<and> authorizationData resp = Some ads"
  then show "snd (getEcrAuthorizationData c) =
        Inr (case ads of [] \<Rightarrow> None | a # _ \<Rightarrow> Some a)"
    by (simp add: getEcrAuthorizationData_eq split: list.splits)
next
  assume a: "createAndConfigureSdkClient env = Inr c \<and>
    snd (locateDockerExecutable env) = Inr path \<and>
    getAuthorizationToken c = Inr resp \<and> authorizationData resp = Some []"
  then show "snd (execute env p) =
        Inl (TypeError ''Cannot read property proxyEndpoint of undefined'')"
    by (simp add: execute_eq getEcrAuthorizationData_eq)
  from a show "filter is_action (fst (execute env p)) = [GetAuthorizationToken]"
    by (simp add: execute_eq getEcrAuthorizationData_eq auth_trace_filters)
next
  assume "execute env p = (tr, Inr u)"
  then show "\<exists>c resp auth rest parsed.
         createAndConfigureSdkClient env = Inr c \<and>
         getAuthorizationToken c = Inr resp \<and>
         authorizationData resp = Some (auth # rest) \<and>
         url_parse env (proxyEndpoint auth) = Inr parsed"
  proof (cases rule: execute_success)
    case (run c path resp auth rest parsed decoded tagged logged pushed)
    from run(1) run(3-5) show ?thesis by (intro exI conjI)
  qed
qed


theorem authorization_data_first_entry_witness:
  "getAuthorizationToken registry_empty = Inr \<lparr>authorizationData = Some []\<rparr> \<and>
   snd (getEcrAuthorizationData registry_empty) = Inr None \<and>
   createAndConfigureSdkClient (env_with registry_empty) = Inr registry_empty \<and>
   snd (locateDockerExecutable (env_with registry_empty)) = Inr ''/bin/docker'' \<and>
   snd (execute (env_with registry_empty) params_ok) =
     Inl (TypeError ''Cannot read property proxyEndpoint of undefined'') \<and>
   filter is_action (fst (execute (env_with registry_empty) params_ok)) =
     [GetAuthorizationToken] \<and>
   snd (execute env_ok params_ok) = Inr () \<and>
   (\<exists>c resp auth rest parsed.
      createAndConfigureSdkClient env_ok = Inr c \<and>
      getAuthorizationToken c = Inr resp \<and>
      authorizationData resp = Some (auth # rest) \<and>
      url_parse env_ok (proxyEndpoint auth) = Inr parsed)"
proof -
  have token: "getAuthorizationToken registry_empty = Inr \<lparr>authorizationData = Some []\<rparr>"
    by (simp add: registry_empty_def)
  have entries: "authorizationData \<lparr>authorizationData = Some []\<rparr> = Some []"
    by simp
  have client: "createAndConfigureSdkClient (env_with registry_empty) = Inr registry_empty"
    by (simp add: env_with_def)
  have docker: "snd (locateDockerExecutable (env_with registry_empty)) = Inr ''/bin/docker''"
    by (simp add: locate_env_with)
  have run: "execute env_ok params_ok = (fst (execute env_ok params_ok), Inr ())"
    by (simp add: execute_env_ok)
  have finished: "snd (execute env_ok params_ok) = Inr ()"
    by (simp add: execute_env_ok)
  note inst = authorization_data_first_entry
    [where c = registry_empty and resp = "\<lparr>authorizationData = Some []\<rparr>"
       and ads = "[]" and env = "env_with registry_empty" and path = "''/bin/docker''"
       and p = params_ok]
  have returned: "snd (getEcrAuthorizationData registry_empty) =
      Inr (case [] of [] \<Rightarrow> None | a # _ \<Rightarrow> Some a)"
    using inst token entries by blast
  then have absent: "snd (getEcrAuthorizationData registry_empty) = Inr None"
    by simp
  have thrown: "snd (execute (env_with registry_empty) params_ok) =
      Inl (TypeError ''Cannot read property proxyEndpoint of undefined'')"
    "filter is_action (fst (execute (env_with registry_empty) params_ok)) =
      [GetAuthorizationToken]"
    using inst token entries client docker by blast+
  have entry: "\<exists>c resp auth rest parsed.
      createAndConfigureSdkClient env_ok = Inr c \<and>
      getAuthorizationToken c = Inr resp \<and>
      authorizationData resp = Some (auth # rest) \<and>
      url_parse env_ok (proxyEndpoint auth) = Inr parsed"
    using authorization_data_first_entry
      [where env = env_ok and p = params_ok and tr = "fst (execute env_ok params_ok)"
         and u = "()"] run
    by blast
  from token absent client docker thrown finished entry show ?thesis
    by (intro conjI)
qed

end
